theory Spec2Isabelle
  imports Complex_Main
begin

section \<open>The product image component of the product summary\<close>

text \<open>
  A shallow embedding of \<^verbatim>\<open>react/components/ProductSummaryImage/ProductImage.js\<close>.
  Function components become functions that return the tree they render; the hooks they
  read (device, product context, CSS handles, responsive values) and the helpers that are
  imported from other files become fields of an explicit environment.

  JavaScript numbers are modelled as reals: the only arithmetic of the file is a
  multiplication by 1 or 2, and the only test on a number is its truthiness, which for a
  real is being different from zero. \<^verbatim>\<open>undefined\<close> and \<^verbatim>\<open>null\<close> are the \<open>None\<close> of an
  option type wherever the source only tests them for truthiness or with \<^verbatim>\<open>== null\<close>.
\<close>

subsection \<open>Product data\<close>

text \<open>
  A value that ends up as the source of an image: a string, the empty object that
  \<^verbatim>\<open>pathOr({}, ...)\<close> supplies as its default, or \<^verbatim>\<open>undefined\<close>.
\<close>

datatype jsval = Undefined | Str string | EmptyObject

record image =
  imageLabel :: "string option"
  imageUrl :: "string option"

record commertialOffer =
  ListPrice :: "real option"
  Price :: "real option"

record seller =
  commertialOffer :: "commertialOffer option"

record sku =
  images :: "image list option"
  image :: "image option"
  seller :: "seller option"

record cluster =
  name :: string

record product =
  productName :: "string option"
  productClusters :: "cluster list option"
  sku :: "sku option"

subsection \<open>Props\<close>

text \<open>
  The props of \<^verbatim>\<open>ProductImage\<close>. The two sizes are a number or a responsive object
  for \<^verbatim>\<open>ProductImage\<close> and a resolved number for \<^verbatim>\<open>ProductImageContent\<close>, hence the
  type parameter. A label is a string that may be missing; the empty string and a missing
  label are both falsy.
\<close>

datatype responsive = Scalar real | Breakpoints "(string \<times> real) list"

record 'w props =
  showBadge :: bool
  badgeText :: "string option"
  displayMode :: string
  mainImageLabel :: "string option"
  hoverImageLabel :: "string option"
  showCollections :: bool
  widthProp :: "'w option"
  heightProp :: "'w option"

subsection \<open>The rendered tree\<close>

record img_style =
  width :: string
  height :: real
  objectFit :: string
  maxHeight :: string
  maxWidth :: real

record 'cb img_attrs =
  src :: jsval
  style :: "img_style option"
  loading :: string
  alt :: "string option"
  className :: string
  onError :: 'cb

text \<open>
  \<open>Nothing\<close> is a child that React does not render (\<^verbatim>\<open>null\<close>, \<^verbatim>\<open>undefined\<close> or
  \<^verbatim>\<open>false\<close>, as left by \<^verbatim>\<open>cond && <X/>\<close>). The badge components and the placeholder
  are imported components and stay unexpanded nodes.
\<close>

datatype 'cb element =
    Div string "'cb element list"
  | Img "'cb img_attrs"
  | ImagePlaceholder "string option"
  | DiscountBadge "real option" "real option" "string option" "'cb element"
  | CollectionBadges "string list" "'cb element"
  | Nothing

fun img_elements :: "'cb element \<Rightarrow> 'cb img_attrs list" where
  "img_elements (Div c kids) = concat (map img_elements kids)"
| "img_elements (Img a) = [a]"
| "img_elements (ImagePlaceholder h) = []"
| "img_elements (DiscountBadge l s t e) = img_elements e"
| "img_elements (CollectionBadges ts e) = img_elements e"
| "img_elements Nothing = []"

subsection \<open>The environment: hooks and imported helpers\<close>

record css_module =
  imageStackContainer :: string
  hoverEffect :: string
  imageNormal :: string
  imageInline :: string
  hoverImage :: string
  imageContainer :: string

record env =
  isMobile :: bool
  selectedImageVariationSKU :: "string option"
  useCssHandles :: "string list \<Rightarrow> string \<Rightarrow> string option"
  applyModifiers :: "string option \<Rightarrow> string \<Rightarrow> string option"
  productSummary :: css_module
  changeImageUrlSize :: "jsval \<Rightarrow> real \<Rightarrow> real \<Rightarrow> jsval"
  useProductSummary :: "product option"
  useResponsiveValues :: "responsive option \<times> responsive option \<Rightarrow> real option \<times> real option"

definition CSS_HANDLES :: "string list" where
  "CSS_HANDLES = [''image'', ''imageContainer'', ''product'', ''imagePlaceholder'']"

text \<open>
  \<^verbatim>\<open>classNames\<close> of the classnames package, on arguments that are strings or missing:
  the truthy ones, joined by a space. An object argument contributes each of its keys
  whose value holds: \<open>class_when\<close> writes one key, \<open>class_keys\<close> all the keys of an
  object. An object literal with computed keys is built key by key, and a key that is
  already there keeps its place and takes the later value (\<open>object_literal\<close>).
\<close>

fun join_space :: "string list \<Rightarrow> string" where
  "join_space [] = []"
| "join_space [x] = x"
| "join_space (x # y # r) = x @ '' '' @ join_space (y # r)"

definition truthy_str :: "string option \<Rightarrow> bool" where
  "truthy_str s = (case s of None \<Rightarrow> False | Some t \<Rightarrow> t \<noteq> [])"

definition classNames :: "string option list \<Rightarrow> string" where
  "classNames args = join_space (map the (filter truthy_str args))"

definition class_when :: "bool \<Rightarrow> string \<Rightarrow> string option" where
  "class_when c k = (if c then Some k else None)"

fun set_key :: "string \<Rightarrow> bool \<Rightarrow> (string \<times> bool) list \<Rightarrow> (string \<times> bool) list" where
  "set_key k v [] = [(k, v)]"
| "set_key k v ((k', v') # r) = (if k' = k then (k, v) # r else (k', v') # set_key k v r)"

definition object_literal :: "(string \<times> bool) list \<Rightarrow> (string \<times> bool) list" where
  "object_literal kvs = foldl (\<lambda>ob kv. set_key (fst kv) (snd kv) ob) [] kvs"

definition class_keys :: "(string \<times> bool) list \<Rightarrow> string option list" where
  "class_keys ob = map (\<lambda>kv. class_when (snd kv) (fst kv)) ob"

text \<open>\<^verbatim>\<open>pathOr\<close> of ramda, on the value found at the path (\<open>None\<close> when a step is missing).\<close>

definition pathOr :: "'a \<Rightarrow> 'a option \<Rightarrow> 'a" where
  "pathOr d v = (case v of None \<Rightarrow> d | Some x \<Rightarrow> x)"

subsection \<open>The badge decorators\<close>

definition maybeBadge ::
  "real option \<times> real option \<times> string option \<Rightarrow> bool \<Rightarrow> 'cb element \<Rightarrow> 'cb element" where
  "maybeBadge b shouldShow component =
     (case b of (listPrice, price, label) \<Rightarrow>
        if shouldShow then DiscountBadge listPrice price label component else component)"

definition maybeCollection ::
  "cluster list option \<Rightarrow> bool \<Rightarrow> 'cb element \<Rightarrow> 'cb element" where
  "maybeCollection clusters shouldShow component =
     (case clusters of
        None \<Rightarrow> component
      | Some cls \<Rightarrow>
          if shouldShow \<and> length cls > 0
          then CollectionBadges (map name cls) component
          else component)"

subsection \<open>Label lookup\<close>

text \<open>
  The result is \<open>None\<close> for both \<^verbatim>\<open>null\<close> (falsy label) and \<^verbatim>\<open>undefined\<close> (no image
  found): the callers only test it for truthiness.
\<close>

definition findImageByLabel :: "image list \<Rightarrow> string option \<Rightarrow> image option" where
  "findImageByLabel imgs selectedLabel =
     (if \<not> truthy_str selectedLabel then None
      else find (\<lambda>i. imageLabel i = selectedLabel) imgs)"

subsection \<open>The image renderer\<close>

definition dpi :: "env \<Rightarrow> real" where
  "dpi e = (if isMobile e then 2 else 1)"

definition shouldResize :: "real \<Rightarrow> real \<Rightarrow> bool" where
  "shouldResize w h = (w \<noteq> 0 \<or> h \<noteq> 0)"

text \<open>The attributes of the one \<^verbatim>\<open><img>\<close> that \<^verbatim>\<open>Image\<close> returns.\<close>

definition imageAttrs ::
  "env \<Rightarrow> jsval \<Rightarrow> real \<Rightarrow> real \<Rightarrow> 'cb \<Rightarrow> string option \<Rightarrow> string \<Rightarrow> 'cb img_attrs" where
  "imageAttrs e s w h cb a c =
     \<lparr> src = (if shouldResize w h
                then changeImageUrlSize e s (w * dpi e) (h * dpi e) else s),
       style = (if shouldResize w h
                then Some \<lparr> width = ''100%'', height = h, objectFit = ''contain'',
                            maxHeight = ''unset'', maxWidth = w \<rparr>
                else None),
       loading = (if shouldResize w h then ''lazy'' else ''auto''),
       alt = a,
       className = c,
       onError = cb \<rparr>"

definition Image ::
  "env \<Rightarrow> jsval \<Rightarrow> real \<Rightarrow> real \<Rightarrow> 'cb \<Rightarrow> string option \<Rightarrow> string \<Rightarrow> 'cb element" where
  "Image e s w h cb a c = Img (imageAttrs e s w h cb a c)"

subsection \<open>The content resolver\<close>

text \<open>
  \<^verbatim>\<open>a || b\<close> on two sizes, and \<^verbatim>\<open>v || 0\<close>, whose value is always a number.
  \<^verbatim>\<open>parseFloat\<close> of a number is that number.
\<close>

definition or_size :: "real option \<Rightarrow> real option \<Rightarrow> real option" where
  "or_size a b = (case a of None \<Rightarrow> b | Some x \<Rightarrow> if x \<noteq> 0 then Some x else b)"

definition or_zero :: "real option \<Rightarrow> real" where
  "or_zero v = (case v of None \<Rightarrow> 0 | Some x \<Rightarrow> if x \<noteq> 0 then x else 0)"

definition parseFloat :: "real \<Rightarrow> real" where
  "parseFloat x = x"

definition resolvedSize :: "real option \<Rightarrow> real option \<Rightarrow> real \<times> real" where
  "resolvedSize wp hp =
     (parseFloat (or_zero (or_size wp hp)), parseFloat (or_zero (or_size hp wp)))"

definition containerClassname :: "env \<Rightarrow> string" where
  "containerClassname e =
     (let handles = useCssHandles e CSS_HANDLES;
          legacyContainerClasses =
            classNames [Some (imageStackContainer (productSummary e)),
                        Some (hoverEffect (productSummary e))]
      in classNames [Some ''dib relative'', handles ''imageContainer'',
                     Some legacyContainerClasses])"

definition placeholder :: "env \<Rightarrow> 'cb element" where
  "placeholder e =
     Div (containerClassname e) [ImagePlaceholder (useCssHandles e CSS_HANDLES ''productImage'')]"

definition url_of :: "image \<Rightarrow> jsval" where
  "url_of i = (case imageUrl i of None \<Rightarrow> Undefined | Some u \<Rightarrow> Str u)"

definition defaultImageUrl :: "sku \<Rightarrow> jsval" where
  "defaultImageUrl s =
     pathOr EmptyObject (map_option Str (Option.bind (image s) imageUrl))"

definition primaryImageUrl :: "env \<Rightarrow> string option \<Rightarrow> sku \<Rightarrow> jsval" where
  "primaryImageUrl e mainLabel s =
     (let imgs = pathOr [] (images s);
          url = defaultImageUrl s
      in if selectedImageVariationSKU e = None \<and> truthy_str mainLabel
         then (case findImageByLabel imgs mainLabel of
                 None \<Rightarrow> url
               | Some mainImage \<Rightarrow> url_of mainImage)
         else url)"

definition legacyImageClasses :: "env \<Rightarrow> string \<Rightarrow> string" where
  "legacyImageClasses e mode =
     classNames (class_keys (object_literal
       [(imageNormal (productSummary e), mode \<noteq> ''inline''),
        (imageInline (productSummary e), mode = ''inline'')]))"

definition imageClassname :: "env \<Rightarrow> string \<Rightarrow> string" where
  "imageClassname e mode =
     classNames [Some (legacyImageClasses e mode), useCssHandles e CSS_HANDLES ''image'']"

definition hoverImageClassname :: "env \<Rightarrow> string \<Rightarrow> string" where
  "hoverImageClassname e mode =
     classNames [Some ''w-100 h-100 dn absolute top-0 left-0 z-999'',
                 applyModifiers e (useCssHandles e CSS_HANDLES ''image'') ''hover'',
                 Some (legacyImageClasses e mode),
                 Some (hoverImage (productSummary e))]"

definition img :: "env \<Rightarrow> 'cb \<Rightarrow> real props \<Rightarrow> string option \<Rightarrow> sku \<Rightarrow> 'cb element" where
  "img e cb p nm s =
     (case resolvedSize (widthProp p) (heightProp p) of (w, h) \<Rightarrow>
        Div (containerClassname e)
          [Image e (primaryImageUrl e (mainImageLabel p) s) w h cb nm
             (imageClassname e (displayMode p)),
           (case findImageByLabel (pathOr [] (images s)) (hoverImageLabel p) of
              None \<Rightarrow> Nothing
            | Some hoverImg \<Rightarrow>
                if \<not> isMobile e
                then Image e (url_of hoverImg) w h cb nm (hoverImageClassname e (displayMode p))
                else Nothing)])"

definition offer_of :: "product option \<Rightarrow> commertialOffer" where
  "offer_of pr =
     pathOr \<lparr> ListPrice = None, Price = None \<rparr>
       (Option.bind (Option.bind (Option.bind pr sku) seller) commertialOffer)"

definition ProductImageContent ::
  "env \<Rightarrow> product option \<Rightarrow> 'cb \<Rightarrow> bool \<Rightarrow> real props \<Rightarrow> 'cb element" where
  "ProductImageContent e pr cb hasError p =
     (case Option.bind pr sku of
        None \<Rightarrow> placeholder e
      | Some s \<Rightarrow>
          if hasError then placeholder e
          else
            let withBadge = maybeBadge (ListPrice (offer_of pr), Price (offer_of pr), badgeText p);
                withCollection = maybeCollection (Option.bind pr productClusters)
            in (withBadge (showBadge p) \<circ> withCollection (showCollections p))
                 (img e cb p (Option.bind pr productName) s))"

subsection \<open>The top-level component and its error state\<close>

text \<open>
  The callback \<^verbatim>\<open>() => setError(true)\<close> is the value \<open>SetError True\<close>; invoking it
  replaces the state.
\<close>

datatype callback = SetError bool

fun invoke :: "callback \<Rightarrow> bool \<Rightarrow> bool" where
  "invoke (SetError b) st = b"

definition imageClassName :: "env \<Rightarrow> string \<Rightarrow> string" where
  "imageClassName e mode =
     classNames [Some (imageContainer (productSummary e)),
                 class_when (mode \<noteq> ''inline'') ''db w-100 center'']"

definition ProductImage :: "env \<Rightarrow> responsive props \<Rightarrow> bool \<Rightarrow> callback element" where
  "ProductImage e p err =
     (case useResponsiveValues e (widthProp p, heightProp p) of (w, h) \<Rightarrow>
        Div (imageClassName e (displayMode p))
          [ProductImageContent e (useProductSummary e) (SetError True) err
             \<lparr> showBadge = showBadge p, badgeText = badgeText p, displayMode = displayMode p,
               mainImageLabel = mainImageLabel p, hoverImageLabel = hoverImageLabel p,
               showCollections = showCollections p, widthProp = w, heightProp = h \<rparr>])"

text \<open>
  One mounted instance: the state cell of \<^verbatim>\<open>useState(false)\<close> together with the
  environment and props of its latest render. It is re-rendered with new props or a new
  context, and the \<open>k\<close>-th image element of what it shows may fail to load, which invokes
  that element's \<^verbatim>\<open>onError\<close>.
\<close>

record mounted =
  error :: bool
  cur_env :: env
  cur_props :: "responsive props"

datatype event = Rerender env "responsive props" | LoadFailure nat

definition mount :: "env \<Rightarrow> responsive props \<Rightarrow> mounted" where
  "mount e p = \<lparr> error = False, cur_env = e, cur_props = p \<rparr>"

definition view :: "mounted \<Rightarrow> callback element" where
  "view i = ProductImage (cur_env i) (cur_props i) (error i)"

fun step :: "mounted \<Rightarrow> event \<Rightarrow> mounted" where
  "step i (Rerender e p) = i\<lparr> cur_env := e, cur_props := p \<rparr>"
| "step i (LoadFailure k) =
     (let shown = img_elements (view i)
      in if k < length shown then i\<lparr> error := invoke (onError (shown ! k)) (error i) \<rparr> else i)"

definition run :: "mounted \<Rightarrow> event list \<Rightarrow> mounted" where
  "run i evs = foldl step i evs"

subsection \<open>A concrete environment and product\<close>

text \<open>
  Stand-ins for the imported helpers and a small catalogue entry, on which the theorems
  below are instantiated.
\<close>

definition demo_css :: css_module where
  "demo_css = \<lparr> imageStackContainer = ''imageStackContainer'', hoverEffect = ''hoverEffect'',
                 imageNormal = ''imageNormal'', imageInline = ''imageInline'',
                 hoverImage = ''hoverImage'', imageContainer = ''imageContainer'' \<rparr>"

definition demo_resize :: "jsval \<Rightarrow> real \<Rightarrow> real \<Rightarrow> jsval" where
  "demo_resize u w h = (case u of Str t \<Rightarrow> Str (t @ ''?aspect=true'') | _ \<Rightarrow> Undefined)"

definition demo_scalar :: "responsive option \<Rightarrow> real option" where
  "demo_scalar r =
     (case r of None \<Rightarrow> None | Some (Scalar x) \<Rightarrow> Some x
      | Some (Breakpoints bs) \<Rightarrow> map_of bs ''desktop'')"

definition demo_env :: "bool \<Rightarrow> string option \<Rightarrow> product option \<Rightarrow> env" where
  "demo_env mobile selected pr =
     \<lparr> isMobile = mobile,
       selectedImageVariationSKU = selected,
       useCssHandles = (\<lambda>hs h. if h \<in> set hs then Some h else None),
       applyModifiers = (\<lambda>h m. map_option (\<lambda>x. x @ ''--'' @ m) h),
       productSummary = demo_css,
       changeImageUrlSize = demo_resize,
       useProductSummary = pr,
       useResponsiveValues = (\<lambda>(w, h). (demo_scalar w, demo_scalar h)) \<rparr>"

definition demo_images :: "image list" where
  "demo_images = [\<lparr> imageLabel = Some ''front'', imageUrl = Some ''front.jpg'' \<rparr>,
                  \<lparr> imageLabel = None, imageUrl = Some ''side.jpg'' \<rparr>,
                  \<lparr> imageLabel = Some ''back'', imageUrl = Some ''back.jpg'' \<rparr>]"

definition demo_sku :: "image option \<Rightarrow> sku" where
  "demo_sku main =
     \<lparr> images = Some demo_images, image = main,
       seller = Some \<lparr> commertialOffer = Some \<lparr> ListPrice = Some 100, Price = Some 80 \<rparr> \<rparr> \<rparr>"

definition demo_product :: "sku option \<Rightarrow> product" where
  "demo_product s =
     \<lparr> productName = Some ''Shirt'',
       productClusters = Some [\<lparr> name = ''Summer'' \<rparr>, \<lparr> name = ''Sale'' \<rparr>],
       sku = s \<rparr>"

definition demo_main :: image where
  "demo_main = \<lparr> imageLabel = None, imageUrl = Some ''main.jpg'' \<rparr>"

definition demo_props :: "string option \<Rightarrow> string option \<Rightarrow> 'w option \<Rightarrow> 'w option \<Rightarrow> 'w props" where
  "demo_props mainLabel hoverLabel w h =
     \<lparr> showBadge = True, badgeText = Some ''OFF'', displayMode = ''normal'',
       mainImageLabel = mainLabel, hoverImageLabel = hoverLabel,
       showCollections = True, widthProp = w, heightProp = h \<rparr>"

section \<open>Properties\<close>

subsection \<open>The shape of what is rendered\<close>

lemma img_elements_Image [simp]:
  "img_elements (Image e s w h cb a c) = [imageAttrs e s w h cb a c]"
  by (simp add: Image_def)

lemma img_elements_maybeBadge [simp]:
  "img_elements (maybeBadge b f x) = img_elements x"
  by (cases b) (simp add: maybeBadge_def)

lemma img_elements_maybeCollection [simp]:
  "img_elements (maybeCollection cs f x) = img_elements x"
  by (simp add: maybeCollection_def split: option.splits)

lemma img_elements_placeholder [simp]: "img_elements (placeholder e) = []"
  by (simp add: placeholder_def)

lemma content_placeholder:
  "Option.bind pr sku = None \<or> hasError \<Longrightarrow> ProductImageContent e pr cb hasError p = placeholder e"
  by (auto simp: ProductImageContent_def split: option.splits)

lemma content_live:
  "Option.bind pr sku = Some s \<Longrightarrow>
   ProductImageContent e pr cb False p =
     maybeBadge (ListPrice (offer_of pr), Price (offer_of pr), badgeText p) (showBadge p)
       (maybeCollection (Option.bind pr productClusters) (showCollections p)
          (img e cb p (Option.bind pr productName) s))"
  by (simp add: ProductImageContent_def)

lemma img_elements_img:
  "img_elements (img e cb p nm s) =
     (case resolvedSize (widthProp p) (heightProp p) of (w, h) \<Rightarrow>
        imageAttrs e (primaryImageUrl e (mainImageLabel p) s) w h cb nm (imageClassname e (displayMode p)) #
        (case findImageByLabel (pathOr [] (images s)) (hoverImageLabel p) of
           None \<Rightarrow> []
         | Some hv \<Rightarrow> if isMobile e then []
             else [imageAttrs e (url_of hv) w h cb nm (hoverImageClassname e (displayMode p))]))"
  by (simp add: img_def split: prod.splits option.splits)

lemma onError_imageAttrs [simp]: "onError (imageAttrs e s w h cb a c) = cb"
  by (simp add: imageAttrs_def)

lemma onError_img: "a \<in> set (img_elements (img e cb p nm s)) \<Longrightarrow> onError a = cb"
  by (auto simp: img_elements_img split: prod.splits option.splits if_splits)

lemma onError_content:
  "a \<in> set (img_elements (ProductImageContent e pr cb err p)) \<Longrightarrow> onError a = cb"
proof (cases "Option.bind pr sku = None \<or> err")
  case True
  assume "a \<in> set (img_elements (ProductImageContent e pr cb err p))"
  with True show ?thesis by (simp add: content_placeholder)
next
  case False
  assume m: "a \<in> set (img_elements (ProductImageContent e pr cb err p))"
  from False obtain s where s: "Option.bind pr sku = Some s" and ne: "\<not> err" by auto
  from m s ne show ?thesis by (simp add: content_live onError_img)
qed

lemma view_error:
  "error i \<Longrightarrow> view i = Div (imageClassName (cur_env i) (displayMode (cur_props i))) [placeholder (cur_env i)]"
  by (simp add: view_def ProductImage_def content_placeholder split: prod.splits)

lemma img_elements_ProductImage:
  "a \<in> set (img_elements (ProductImage e p err)) \<Longrightarrow> onError a = SetError True"
  by (auto simp: ProductImage_def split: prod.splits dest: onError_content)

lemma step_error: "error i \<Longrightarrow> error (step i ev)"
  by (cases ev) (auto simp: view_error Let_def)

lemma step_failure:
  "k < length (img_elements (view i)) \<Longrightarrow> error (step i (LoadFailure k))"
proof -
  assume k: "k < length (img_elements (view i))"
  then have "img_elements (view i) ! k \<in> set (img_elements (view i))" by simp
  then have "onError (img_elements (view i) ! k) = SetError True"
    unfolding view_def by (rule img_elements_ProductImage)
  with k show ?thesis by (simp add: Let_def)
qed

lemma run_error: "error i \<Longrightarrow> error (run i evs)"
  unfolding run_def by (induction evs arbitrary: i) (simp_all add: step_error)

lemma cur_step_failure [simp]:
  "cur_env (step i (LoadFailure k)) = cur_env i" "cur_props (step i (LoadFailure k)) = cur_props i"
  by (simp_all add: Let_def)

subsection \<open>Label lookup\<close>

lemma findImageByLabel_Some:
  "findImageByLabel imgs l = Some j \<Longrightarrow> j \<in> set imgs \<and> imageLabel j = l \<and> truthy_str l"
  by (auto simp: findImageByLabel_def find_Some_iff split: if_splits)

lemma findImageByLabel_None:
  "findImageByLabel imgs l = None \<longleftrightarrow> \<not> truthy_str l \<or> (\<forall>i \<in> set imgs. imageLabel i \<noteq> l)"
  by (auto simp: findImageByLabel_def find_None_iff)

lemma content_first_image:
  "Option.bind pr sku = Some s \<Longrightarrow>
   \<exists>rest. img_elements (ProductImageContent e pr cb False p) =
     imageAttrs e (primaryImageUrl e (mainImageLabel p) s)
       (fst (resolvedSize (widthProp p) (heightProp p)))
       (snd (resolvedSize (widthProp p) (heightProp p)))
       cb (Option.bind pr productName) (imageClassname e (displayMode p)) # rest"
  by (simp add: content_live img_elements_img split: prod.splits)

subsection \<open>Unfolding the concrete environment\<close>

lemmas demo_defs = demo_env_def demo_css_def demo_resize_def demo_scalar_def demo_images_def
  demo_sku_def demo_product_def demo_main_def demo_props_def

lemmas render_defs = ProductImage_def ProductImageContent_def placeholder_def img_def Image_def
  imageAttrs_def containerClassname_def imageClassname_def imageClassName_def
  hoverImageClassname_def legacyImageClasses_def classNames_def class_when_def truthy_str_def
  object_literal_def class_keys_def
  CSS_HANDLES_def pathOr_def resolvedSize_def or_size_def or_zero_def parseFloat_def
  shouldResize_def dpi_def findImageByLabel_def primaryImageUrl_def defaultImageUrl_def
  url_of_def offer_of_def maybeBadge_def maybeCollection_def

subsection \<open>The placeholder branch\<close>

text \<open>
  Claim C1. When \<^verbatim>\<open>product && product.sku\<close> is falsy (no product, or a product with
  no sku) or \<^verbatim>\<open>hasError\<close> is true, \<^verbatim>\<open>ProductImageContent\<close> returns the placeholder
  inside the container \<^verbatim>\<open>div\<close> and nothing else: the tree has no image element and no
  badge, and it is the same for every other callback and every other props.
\<close>

theorem C1_placeholder_without_sku_or_on_error:
  "Option.bind pr sku = None \<or> hasError \<Longrightarrow>
     ProductImageContent e pr cb hasError p =
       Div (containerClassname e) [ImagePlaceholder (useCssHandles e CSS_HANDLES ''productImage'')]
     \<and> img_elements (ProductImageContent e pr cb hasError p) = []
     \<and> ProductImageContent e pr cb hasError p = ProductImageContent e pr cb' hasError p'"
  by (simp add: content_placeholder placeholder_def)

text \<open>A product without sku, and a complete product after an error.\<close>

theorem C1_placeholder_witness:
  "ProductImageContent (demo_env False None None) (Some (demo_product None)) (SetError True) False
     (demo_props (Some ''front'') (Some ''back'') (Some 100) None) =
     Div ''dib relative imageContainer imageStackContainer hoverEffect'' [ImagePlaceholder None]
   \<and> ProductImageContent (demo_env False None None)
       (Some (demo_product (Some (demo_sku (Some demo_main)))))
       (SetError True) True (demo_props (Some ''front'') (Some ''back'') (Some 100) None) =
     Div ''dib relative imageContainer imageStackContainer hoverEffect'' [ImagePlaceholder None]"
  using C1_placeholder_without_sku_or_on_error
          [where pr = "Some (demo_product None)" and hasError = False
             and e = "demo_env False None None" and cb = "SetError True"
             and p = "demo_props (Some ''front'') (Some ''back'') (Some 100) None"]
        C1_placeholder_without_sku_or_on_error
          [where pr = "Some (demo_product (Some (demo_sku (Some demo_main))))" and hasError = True
             and e = "demo_env False None None" and cb = "SetError True"
             and p = "demo_props (Some ''front'') (Some ''back'') (Some 100) None"]
  by (simp add: demo_defs containerClassname_def classNames_def truthy_str_def CSS_HANDLES_def)

subsection \<open>Width and height\<close>

text \<open>
  Claim C3. The resolved pair falls back mutually: with only the width supplied both
  are the width, with only the height supplied both are the height, with neither both are 0
  and no resize happens; with both supplied each is itself unless it is 0, when it is the
  other. In the rendered content, no supplied size leaves every image element without
  sizing style and with \<^verbatim>\<open>loading\<close> \<^verbatim>\<open>auto\<close>, and a supplied width alone gives the
  primary image that width as both its sizes.
\<close>

theorem C3_size_mutual_fallback:
  "resolvedSize (Some w) None = (w, w)
   \<and> resolvedSize None (Some h) = (h, h)
   \<and> resolvedSize None None = (0, 0)
   \<and> \<not> shouldResize (fst (resolvedSize None None)) (snd (resolvedSize None None))
   \<and> resolvedSize (Some w) (Some h) = (if w \<noteq> 0 then w else h, if h \<noteq> 0 then h else w)
   \<and> (Option.bind pr sku = Some s \<and> widthProp p = None \<and> heightProp p = None \<longrightarrow>
        (\<forall>a \<in> set (img_elements (ProductImageContent e pr cb False p)).
           style a = None \<and> loading a = ''auto''))
   \<and> (Option.bind pr sku = Some s \<and> widthProp p = Some w \<and> heightProp p = None \<longrightarrow>
        (\<exists>rest. img_elements (ProductImageContent e pr cb False p) =
           imageAttrs e (primaryImageUrl e (mainImageLabel p) s) w w cb (Option.bind pr productName)
             (imageClassname e (displayMode p)) # rest))"
proof -
  have a: "resolvedSize (Some w) None = (w, w)" "resolvedSize None (Some h) = (h, h)"
    "resolvedSize None None = (0, 0)"
    "resolvedSize (Some w) (Some h) = (if w \<noteq> 0 then w else h, if h \<noteq> 0 then h else w)"
    by (simp_all add: resolvedSize_def or_size_def or_zero_def parseFloat_def)
  have b: "\<not> shouldResize (fst (resolvedSize None None)) (snd (resolvedSize None None))"
    by (simp add: a shouldResize_def)
  have c: "\<forall>a \<in> set (img_elements (ProductImageContent e pr cb False p)).
           style a = None \<and> loading a = ''auto''"
    if "Option.bind pr sku = Some s" "widthProp p = None" "heightProp p = None"
    using that
    by (auto simp: content_live img_elements_img a imageAttrs_def shouldResize_def
          split: option.splits)
  have d: "\<exists>rest. img_elements (ProductImageContent e pr cb False p) =
           imageAttrs e (primaryImageUrl e (mainImageLabel p) s) w w cb (Option.bind pr productName)
             (imageClassname e (displayMode p)) # rest"
    if "Option.bind pr sku = Some s" "widthProp p = Some w" "heightProp p = None"
    using that by (simp add: content_live img_elements_img a)
  from a b c d show ?thesis by blast
qed

text \<open>No size supplied on a mobile device, and a width of 100 alone.\<close>

theorem C3_size_witness:
  "Option.bind (Some (demo_product (Some (demo_sku (Some demo_main))))) sku = Some (demo_sku (Some demo_main))
   \<and> resolvedSize (Some 100) None = (100, 100)
   \<and> resolvedSize None None = (0, 0)
   \<and> map style (img_elements (ProductImageContent (demo_env True None None)
         (Some (demo_product (Some (demo_sku (Some demo_main))))) (SetError True) False
         (demo_props None None None None))) = [None]
   \<and> map (map_option height \<circ> style) (img_elements (ProductImageContent (demo_env True None None)
         (Some (demo_product (Some (demo_sku (Some demo_main))))) (SetError True) False
         (demo_props None None (Some 100) None))) = [Some 100]"
  using C3_size_mutual_fallback
          [where pr = "Some (demo_product (Some (demo_sku (Some demo_main))))"
             and s = "demo_sku (Some demo_main)" and e = "demo_env True None None"
             and cb = "SetError True" and p = "demo_props None None None None"
             and w = 100 and h = 100]
        C3_size_mutual_fallback
          [where pr = "Some (demo_product (Some (demo_sku (Some demo_main))))"
             and s = "demo_sku (Some demo_main)" and e = "demo_env True None None"
             and cb = "SetError True" and p = "demo_props None None (Some 100) None"
             and w = 100 and h = 100]
  by (simp add: demo_defs render_defs)

subsection \<open>The badge decorators\<close>

text \<open>
  Claim C7. Each decorator applied with its flag false returns the element it was given;
  so does the collections decorator when there is no cluster list or an empty one.
\<close>

theorem C7_decorators_identity_when_off:
  "maybeBadge (listPrice, price, label) False x = x
   \<and> maybeCollection cs False x = x
   \<and> maybeCollection None f x = x
   \<and> maybeCollection (Some []) f x = x"
  by (simp add: maybeBadge_def maybeCollection_def split: option.splits)

subsection \<open>The error state\<close>

text \<open>
  Claim C2. The error state is \<open>False\<close> when the component is mounted; a load failure
  of an image element that is shown sets it to \<open>True\<close>; a re-render leaves it as it is;
  and no event resets it: from a state with the error set, every sequence of re-renders
  (with any props, any product, any environment) and load failures ends in a state with
  the error set, whose view is the placeholder.
\<close>

theorem C2_error_state_is_permanent:
  "\<not> error (mount e p)
   \<and> (k < length (img_elements (view i)) \<longrightarrow> error (step i (LoadFailure k)))
   \<and> error (step i (Rerender e' p')) = error i
   \<and> (error i \<longrightarrow>
        error (step i ev)
        \<and> error (run i evs)
        \<and> view (run i evs) =
            Div (imageClassName (cur_env (run i evs)) (displayMode (cur_props (run i evs))))
              [Div (containerClassname (cur_env (run i evs)))
                 [ImagePlaceholder (useCssHandles (cur_env (run i evs)) CSS_HANDLES ''productImage'')]])"
proof -
  have "view (run i evs) =
            Div (imageClassName (cur_env (run i evs)) (displayMode (cur_props (run i evs))))
              [Div (containerClassname (cur_env (run i evs)))
                 [ImagePlaceholder (useCssHandles (cur_env (run i evs)) CSS_HANDLES ''productImage'')]]"
    if "error i"
    using view_error [OF run_error [OF that, of evs]] by (simp add: placeholder_def)
  moreover have "\<not> error (mount e p)"
    by (simp add: mount_def)
  moreover have "error (step i (Rerender e' p')) = error i"
    by simp
  moreover have "k < length (img_elements (view i)) \<longrightarrow> error (step i (LoadFailure k))"
    using step_failure by blast
  ultimately show ?thesis
    using step_error run_error by blast
qed

text \<open>
  A product with a hover image on a desktop: two image elements are shown, the first one
  fails, and after a re-render with other props on another device the placeholder is shown.
\<close>

theorem C2_error_state_witness:
  "\<not> error (mount (demo_env False None (Some (demo_product (Some (demo_sku (Some demo_main))))))
               (demo_props None (Some ''back'') None None))
   \<and> length (img_elements (view (mount (demo_env False None (Some (demo_product (Some (demo_sku (Some demo_main))))))
               (demo_props None (Some ''back'') None None)))) = 2
   \<and> error (step (mount (demo_env False None (Some (demo_product (Some (demo_sku (Some demo_main))))))
               (demo_props None (Some ''back'') None None)) (LoadFailure 0))
   \<and> view (run (step (mount (demo_env False None (Some (demo_product (Some (demo_sku (Some demo_main))))))
               (demo_props None (Some ''back'') None None)) (LoadFailure 0))
              [Rerender (demo_env True None (Some (demo_product (Some (demo_sku (Some demo_main))))))
                 (demo_props (Some ''front'') None None None), LoadFailure 0]) =
       Div ''imageContainer db w-100 center''
         [Div ''dib relative imageContainer imageStackContainer hoverEffect'' [ImagePlaceholder None]]"
proof -
  let ?e = "demo_env False None (Some (demo_product (Some (demo_sku (Some demo_main)))))"
  let ?p = "demo_props None (Some ''back'') None None :: responsive props"
  let ?e' = "demo_env True None (Some (demo_product (Some (demo_sku (Some demo_main)))))"
  let ?p' = "demo_props (Some ''front'') None None None :: responsive props"
  have n: "length (img_elements (view (mount ?e ?p))) = 2"
    by (simp add: view_def mount_def demo_defs render_defs)
  then have k: "0 < length (img_elements (view (mount ?e ?p)))" by simp
  have a: "\<not> error (mount ?e ?p)"
    using C2_error_state_is_permanent [where e = ?e and p = ?p] by simp
  have b: "error (step (mount ?e ?p) (LoadFailure 0))"
    using C2_error_state_is_permanent [where i = "mount ?e ?p" and k = 0] k by blast
  have c: "view (run (step (mount ?e ?p) (LoadFailure 0)) [Rerender ?e' ?p', LoadFailure 0]) =
       Div ''imageContainer db w-100 center''
         [Div ''dib relative imageContainer imageStackContainer hoverEffect'' [ImagePlaceholder None]]"
    using C2_error_state_is_permanent
            [where i = "step (mount ?e ?p) (LoadFailure 0)"
               and evs = "[Rerender ?e' ?p', LoadFailure 0]"] b
    by (simp add: run_def Let_def view_def mount_def demo_defs render_defs)
  from n a b c show ?thesis by simp
qed

subsection \<open>The primary image\<close>

text \<open>
  Claim C4. The primary image URL defaults to \<^verbatim>\<open>sku.image.imageUrl\<close>. It stays the
  default when a variation is selected, when \<^verbatim>\<open>mainImageLabel\<close> is missing or empty,
  or when no image of the list has that label. When no variation is selected, the label is
  non-empty and some image has exactly that label, it is the \<^verbatim>\<open>imageUrl\<close> of the first
  image with that label. The first image element of the rendered content is the image
  renderer applied to this URL.
\<close>

theorem C4_primary_image_url:
  "(image s = Some m \<and> imageUrl m = Some u \<longrightarrow> defaultImageUrl s = Str u)
   \<and> (selectedImageVariationSKU e \<noteq> None \<or> l = None \<or> l = Some []
        \<or> (\<forall>i \<in> set (pathOr [] (images s)). imageLabel i \<noteq> l)
       \<longrightarrow> primaryImageUrl e l s = defaultImageUrl s)
   \<and> (selectedImageVariationSKU e = None \<and> l = Some t \<and> t \<noteq> []
        \<and> i \<in> set (pathOr [] (images s)) \<and> imageLabel i = l
       \<longrightarrow> (\<exists>j \<in> set (pathOr [] (images s)).
              imageLabel j = l
              \<and> find (\<lambda>x. imageLabel x = l) (pathOr [] (images s)) = Some j
              \<and> primaryImageUrl e l s = url_of j))
   \<and> (Option.bind pr sku = Some s \<longrightarrow>
        (\<exists>rest. img_elements (ProductImageContent e pr cb False p) =
           imageAttrs e (primaryImageUrl e (mainImageLabel p) s)
             (fst (resolvedSize (widthProp p) (heightProp p)))
             (snd (resolvedSize (widthProp p) (heightProp p)))
             cb (Option.bind pr productName) (imageClassname e (displayMode p)) # rest))"
proof -
  let ?imgs = "pathOr [] (images s)"
  have a: "defaultImageUrl s = Str u" if "image s = Some m" "imageUrl m = Some u"
    using that by (simp add: defaultImageUrl_def pathOr_def)
  have b: "primaryImageUrl e l s = defaultImageUrl s"
    if "selectedImageVariationSKU e \<noteq> None \<or> l = None \<or> l = Some []
        \<or> (\<forall>i \<in> set ?imgs. imageLabel i \<noteq> l)"
  proof (cases "selectedImageVariationSKU e = None \<and> truthy_str l")
    case True
    with that have "\<forall>i \<in> set ?imgs. imageLabel i \<noteq> l"
      by (auto simp: truthy_str_def)
    then have "findImageByLabel ?imgs l = None"
      by (simp add: findImageByLabel_None)
    then show ?thesis by (simp add: primaryImageUrl_def Let_def)
  next
    case False
    then show ?thesis by (auto simp: primaryImageUrl_def Let_def)
  qed
  have c: "\<exists>j \<in> set ?imgs. imageLabel j = l
              \<and> find (\<lambda>x. imageLabel x = l) ?imgs = Some j
              \<and> primaryImageUrl e l s = url_of j"
    if h: "selectedImageVariationSKU e = None" "l = Some t" "t \<noteq> []"
       "i \<in> set ?imgs" "imageLabel i = l"
  proof -
    from h have tr: "truthy_str l" by (simp add: truthy_str_def)
    from h have "findImageByLabel ?imgs l \<noteq> None"
      using tr by (auto simp: findImageByLabel_None)
    then obtain j where j: "findImageByLabel ?imgs l = Some j" by auto
    then have "j \<in> set ?imgs" "imageLabel j = l"
      by (auto dest: findImageByLabel_Some)
    moreover from j tr have "find (\<lambda>x. imageLabel x = l) ?imgs = Some j"
      by (simp add: findImageByLabel_def)
    moreover from j tr h have "primaryImageUrl e l s = url_of j"
      by (simp add: primaryImageUrl_def Let_def)
    ultimately show ?thesis by blast
  qed
  from a b c content_first_image [of pr s e cb p] show ?thesis by blast
qed

text \<open>
  The third image is labelled \<open>back\<close>, and no image is labelled \<open>top\<close>.
\<close>

theorem C4_primary_image_url_witness:
  "selectedImageVariationSKU (demo_env False None None) = None
   \<and> demo_images ! 2 \<in> set (pathOr [] (images (demo_sku (Some demo_main))))
   \<and> imageLabel (demo_images ! 2) = Some ''back''
   \<and> primaryImageUrl (demo_env False None None) (Some ''back'') (demo_sku (Some demo_main)) =
       Str ''back.jpg''
   \<and> primaryImageUrl (demo_env False None None) (Some ''top'') (demo_sku (Some demo_main)) =
       Str ''main.jpg''"
proof -
  let ?e = "demo_env False None None"
  let ?s = "demo_sku (Some demo_main)"
  let ?imgs = "pathOr [] (images ?s)"
  have h: "selectedImageVariationSKU ?e = None" "demo_images ! 2 \<in> set ?imgs"
    "imageLabel (demo_images ! 2) = Some ''back''"
    by (simp_all add: demo_defs pathOr_def)
  have f: "find (\<lambda>x. imageLabel x = Some ''back'') ?imgs = Some (demo_images ! 2)"
    by (simp add: demo_defs pathOr_def)
  have "\<exists>j \<in> set ?imgs. imageLabel j = Some ''back''
          \<and> find (\<lambda>x. imageLabel x = Some ''back'') ?imgs = Some j
          \<and> primaryImageUrl ?e (Some ''back'') ?s = url_of j"
    by (rule C4_primary_image_url
               [where e = ?e and l = "Some ''back''" and t = "''back''" and s = ?s
                  and i = "demo_images ! 2",
                THEN conjunct2, THEN conjunct2, THEN conjunct1, rule_format])
       (simp add: h)
  with f have "primaryImageUrl ?e (Some ''back'') ?s = url_of (demo_images ! 2)"
    by auto
  then have a: "primaryImageUrl ?e (Some ''back'') ?s = Str ''back.jpg''"
    by (simp add: url_of_def demo_defs)
  have "primaryImageUrl ?e (Some ''top'') ?s = defaultImageUrl ?s"
    by (rule C4_primary_image_url
               [where e = ?e and l = "Some ''top''" and s = ?s,
                THEN conjunct2, THEN conjunct1, rule_format])
       (simp add: demo_defs pathOr_def)
  moreover have "defaultImageUrl ?s = Str ''main.jpg''"
    by (rule C4_primary_image_url
               [where s = ?s and m = demo_main and u = "''main.jpg''",
                THEN conjunct1, rule_format])
       (simp add: demo_defs)
  ultimately have b: "primaryImageUrl ?e (Some ''top'') ?s = Str ''main.jpg''"
    by simp
  from h a b show ?thesis by simp
qed

subsection \<open>The hover image\<close>

text \<open>
  Claim C5. The lookup of the hover image returns nothing for a missing or empty label
  without looking at the images; what it returns is an image of the list whose label equals
  the given label; for a non-empty label it returns nothing exactly when no image has that
  label. With a sku and no error, the rendered content has two image elements when a
  hover image was found and the device is not mobile, and one image element otherwise.
\<close>

theorem C5_hover_image:
  "(l = None \<or> l = Some [] \<longrightarrow> findImageByLabel imgs l = None)
   \<and> (findImageByLabel imgs l = Some j \<longrightarrow> j \<in> set imgs \<and> imageLabel j = l)
   \<and> (l = Some t \<and> t \<noteq> [] \<longrightarrow>
        (findImageByLabel imgs l = None \<longleftrightarrow> (\<forall>i \<in> set imgs. imageLabel i \<noteq> l)))
   \<and> (Option.bind pr sku = Some s \<longrightarrow>
        length (img_elements (ProductImageContent e pr cb False p)) =
          (if findImageByLabel (pathOr [] (images s)) (hoverImageLabel p) \<noteq> None \<and> \<not> isMobile e
           then 2 else 1))"
proof -
  have a: "findImageByLabel imgs l = None" if "l = None \<or> l = Some []"
    using that by (auto simp: findImageByLabel_def truthy_str_def)
  have b: "j \<in> set imgs \<and> imageLabel j = l" if "findImageByLabel imgs l = Some j"
    using that by (simp add: findImageByLabel_Some)
  have c: "findImageByLabel imgs l = None \<longleftrightarrow> (\<forall>i \<in> set imgs. imageLabel i \<noteq> l)"
    if "l = Some t" "t \<noteq> []"
    using that by (simp add: findImageByLabel_None truthy_str_def)
  have d: "length (img_elements (ProductImageContent e pr cb False p)) =
          (if findImageByLabel (pathOr [] (images s)) (hoverImageLabel p) \<noteq> None \<and> \<not> isMobile e
           then 2 else 1)"
    if "Option.bind pr sku = Some s"
    using that by (simp add: content_live img_elements_img split: prod.splits option.splits)
  show ?thesis
  proof (intro conjI impI)
    assume "l = None \<or> l = Some []"
    then show "findImageByLabel imgs l = None" by (rule a)
  next
    assume "findImageByLabel imgs l = Some j"
    then show "j \<in> set imgs" by (simp add: b)
  next
    assume "findImageByLabel imgs l = Some j"
    then show "imageLabel j = l" by (simp add: b)
  next
    assume "l = Some t \<and> t \<noteq> []"
    then have "l = Some t" and "t \<noteq> []" by simp_all
    then show "findImageByLabel imgs l = None \<longleftrightarrow> (\<forall>i \<in> set imgs. imageLabel i \<noteq> l)"
      by (rule c)
  next
    assume "Option.bind pr sku = Some s"
    then show "length (img_elements (ProductImageContent e pr cb False p)) =
          (if findImageByLabel (pathOr [] (images s)) (hoverImageLabel p) \<noteq> None \<and> \<not> isMobile e
           then 2 else 1)" by (rule d)
  qed
qed

text \<open>
  A matching label on a desktop and on a mobile device, and a label that matches no image.
\<close>

theorem C5_hover_image_witness:
  "findImageByLabel (pathOr [] (images (demo_sku (Some demo_main)))) (Some ''back'') \<noteq> None
   \<and> length (img_elements (ProductImageContent (demo_env False None None)
         (Some (demo_product (Some (demo_sku (Some demo_main))))) (SetError True) False
         (demo_props None (Some ''back'') None None))) = 2
   \<and> length (img_elements (ProductImageContent (demo_env True None None)
         (Some (demo_product (Some (demo_sku (Some demo_main))))) (SetError True) False
         (demo_props None (Some ''back'') None None))) = 1
   \<and> findImageByLabel (pathOr [] (images (demo_sku (Some demo_main)))) (Some ''bac'') = None
   \<and> length (img_elements (ProductImageContent (demo_env False None None)
         (Some (demo_product (Some (demo_sku (Some demo_main))))) (SetError True) False
         (demo_props None (Some ''bac'') None None))) = 1"
proof -
  let ?s = "demo_sku (Some demo_main)"
  let ?pr = "Some (demo_product (Some ?s))"
  let ?imgs = "pathOr [] (images ?s)"
  let ?p = "demo_props None (Some ''back'') None None :: real props"
  let ?q = "demo_props None (Some ''bac'') None None :: real props"
  have s: "Option.bind ?pr sku = Some ?s"
    by (simp add: demo_defs)
  have f: "findImageByLabel ?imgs (Some ''back'') \<noteq> None"
    by (simp add: findImageByLabel_def truthy_str_def demo_defs pathOr_def)
  have g: "findImageByLabel ?imgs (Some ''bac'') = None"
    by (rule C5_hover_image
               [where l = "Some ''bac''" and t = "''bac''" and imgs = ?imgs,
                THEN conjunct2, THEN conjunct2, THEN conjunct1, rule_format, THEN iffD2])
       (simp_all add: demo_defs pathOr_def)
  have d: "\<not> isMobile (demo_env False None None)" "isMobile (demo_env True None None)"
    by (simp_all add: demo_defs)
  have l: "hoverImageLabel ?p = Some ''back''" "hoverImageLabel ?q = Some ''bac''"
    by (simp_all add: demo_defs)
  have "length (img_elements (ProductImageContent (demo_env False None None) ?pr
              (SetError True) False ?p)) =
          (if findImageByLabel ?imgs (hoverImageLabel ?p) \<noteq> None
              \<and> \<not> isMobile (demo_env False None None) then 2 else 1)"
    by (rule C5_hover_image
               [THEN conjunct2, THEN conjunct2, THEN conjunct2, rule_format]) (rule s)
  with f d l have a: "length (img_elements (ProductImageContent (demo_env False None None) ?pr
              (SetError True) False ?p)) = 2"
    by simp
  have "length (img_elements (ProductImageContent (demo_env True None None) ?pr
              (SetError True) False ?p)) =
          (if findImageByLabel ?imgs (hoverImageLabel ?p) \<noteq> None
              \<and> \<not> isMobile (demo_env True None None) then 2 else 1)"
    by (rule C5_hover_image
               [THEN conjunct2, THEN conjunct2, THEN conjunct2, rule_format]) (rule s)
  with d have b: "length (img_elements (ProductImageContent (demo_env True None None) ?pr
              (SetError True) False ?p)) = 1"
    by simp
  have "length (img_elements (ProductImageContent (demo_env False None None) ?pr
              (SetError True) False ?q)) =
          (if findImageByLabel ?imgs (hoverImageLabel ?q) \<noteq> None
              \<and> \<not> isMobile (demo_env False None None) then 2 else 1)"
    by (rule C5_hover_image
               [THEN conjunct2, THEN conjunct2, THEN conjunct2, rule_format]) (rule s)
  with g l have c: "length (img_elements (ProductImageContent (demo_env False None None) ?pr
              (SetError True) False ?q)) = 1"
    by simp
  from f a b g c show ?thesis by simp
qed

subsection \<open>The order of the badges\<close>

text \<open>
  Claim C6. With a sku and no error, \<^verbatim>\<open>showBadge\<close> and \<^verbatim>\<open>showCollections\<close> true
  and a non-empty cluster list, the rendered content is the discount badge around the
  collection badges around the base composition: \<^verbatim>\<open>compose\<close> applies the collections
  decorator first and the discount decorator to its result. The collections decorator
  wraps exactly when its flag is true and the cluster list is present and non-empty, and
  the labels it shows are the names of the clusters, in order.
\<close>

theorem C6_badge_wrapping_order:
  "(Option.bind pr sku = Some s \<and> showBadge p \<and> showCollections p
      \<and> Option.bind pr productClusters = Some cls \<and> cls \<noteq> [] \<longrightarrow>
      ProductImageContent e pr cb False p =
        DiscountBadge (ListPrice (offer_of pr)) (Price (offer_of pr)) (badgeText p)
          (CollectionBadges (map name cls) (img e cb p (Option.bind pr productName) s)))
   \<and> (f \<and> cs = Some cls \<and> cls \<noteq> [] \<longrightarrow>
        maybeCollection cs f x = CollectionBadges (map name cls) x)
   \<and> (\<not> f \<or> cs = None \<or> cs = Some [] \<longrightarrow> maybeCollection cs f x = x)"
proof (intro conjI impI)
  assume h: "Option.bind pr sku = Some s \<and> showBadge p \<and> showCollections p
      \<and> Option.bind pr productClusters = Some cls \<and> cls \<noteq> []"
  then have "ProductImageContent e pr cb False p =
     maybeBadge (ListPrice (offer_of pr), Price (offer_of pr), badgeText p) True
       (maybeCollection (Some cls) True (img e cb p (Option.bind pr productName) s))"
    by (simp add: content_live)
  with h show "ProductImageContent e pr cb False p =
        DiscountBadge (ListPrice (offer_of pr)) (Price (offer_of pr)) (badgeText p)
          (CollectionBadges (map name cls) (img e cb p (Option.bind pr productName) s))"
    by (simp add: maybeBadge_def maybeCollection_def)
next
  assume "f \<and> cs = Some cls \<and> cls \<noteq> []"
  then show "maybeCollection cs f x = CollectionBadges (map name cls) x"
    by (simp add: maybeCollection_def)
next
  assume "\<not> f \<or> cs = None \<or> cs = Some []"
  then show "maybeCollection cs f x = x"
    by (auto simp: maybeCollection_def split: option.splits)
qed

text \<open>The catalogue entry has the clusters \<open>Summer\<close> and \<open>Sale\<close>.\<close>

theorem C6_badge_wrapping_witness:
  "Option.bind (Some (demo_product (Some (demo_sku (Some demo_main))))) productClusters =
     Some [\<lparr> name = ''Summer'' \<rparr>, \<lparr> name = ''Sale'' \<rparr>]
   \<and> ProductImageContent (demo_env True None None)
       (Some (demo_product (Some (demo_sku (Some demo_main))))) (SetError True) False
       (demo_props None None None None) =
     DiscountBadge (Some 100) (Some 80) (Some ''OFF'')
       (CollectionBadges [''Summer'', ''Sale'']
          (Div ''dib relative imageContainer imageStackContainer hoverEffect''
             [Img \<lparr> src = Str ''main.jpg'', style = None, loading = ''auto'',
                    alt = Some ''Shirt'', className = ''imageNormal image'',
                    onError = SetError True \<rparr>,
              Nothing]))"
proof -
  let ?s = "demo_sku (Some demo_main)"
  let ?pr = "Some (demo_product (Some ?s))"
  let ?e = "demo_env True None None"
  let ?p = "demo_props None None None None :: real props"
  let ?cls = "[\<lparr> name = ''Summer'' \<rparr>, \<lparr> name = ''Sale'' \<rparr>]"
  have c: "Option.bind ?pr productClusters = Some ?cls"
    by (simp add: demo_defs)
  have "ProductImageContent ?e ?pr (SetError True) False ?p =
        DiscountBadge (ListPrice (offer_of ?pr)) (Price (offer_of ?pr)) (badgeText ?p)
          (CollectionBadges (map name ?cls) (img ?e (SetError True) ?p (Option.bind ?pr productName) ?s))"
    by (rule C6_badge_wrapping_order [THEN conjunct1, rule_format])
       (simp add: demo_defs)
  moreover have "ListPrice (offer_of ?pr) = Some 100" "Price (offer_of ?pr) = Some 80"
    "badgeText ?p = Some ''OFF''"
    by (simp_all add: offer_of_def pathOr_def demo_defs)
  moreover have "img ?e (SetError True) ?p (Option.bind ?pr productName) ?s =
     Div ''dib relative imageContainer imageStackContainer hoverEffect''
             [Img \<lparr> src = Str ''main.jpg'', style = None, loading = ''auto'',
                    alt = Some ''Shirt'', className = ''imageNormal image'',
                    onError = SetError True \<rparr>,
              Nothing]"
    by (simp add: demo_defs render_defs Let_def)
  ultimately show ?thesis using c by simp
qed

subsection \<open>The image renderer\<close>

text \<open>
  That \<^verbatim>\<open>loading\<close> is \<^verbatim>\<open>eager\<close> when resize is inactive fails: with no width and no
  height the attribute is \<^verbatim>\<open>auto\<close>.
\<close>

theorem C8_loading_auto_counterexample:
  "\<not> shouldResize 0 0
   \<and> loading (imageAttrs (demo_env False None None) (Str ''a.jpg'') 0 0 (SetError True)
        (Some ''Shirt'') ''image'') = ''auto''
   \<and> loading (imageAttrs (demo_env False None None) (Str ''a.jpg'') 0 0 (SetError True)
        (Some ''Shirt'') ''image'') \<noteq> ''eager''"
  by (simp add: shouldResize_def imageAttrs_def)

text \<open>
  Claim C8, amended. The density is 2 on a mobile device and 1 otherwise. Resize is active
  exactly when the width or the height is not zero. When it is active, the source is
  \<^verbatim>\<open>changeImageUrlSize\<close> of the given source with the width and the height each
  multiplied by the density, the style is full width, the given height, contain fit, unset
  maximal height and the given width as maximal width, and \<^verbatim>\<open>loading\<close> is
  \<^verbatim>\<open>lazy\<close>. When it is not, the source is the one given, there is no style, and
  \<^verbatim>\<open>loading\<close> is \<^verbatim>\<open>auto\<close>.
\<close>

theorem C8_image_renderer:
  "dpi e = (if isMobile e then 2 else 1)
   \<and> (shouldResize w h \<longleftrightarrow> w \<noteq> 0 \<or> h \<noteq> 0)
   \<and> Image e s w h cb a c = Img (imageAttrs e s w h cb a c)
   \<and> (w \<noteq> 0 \<or> h \<noteq> 0 \<longrightarrow>
        imageAttrs e s w h cb a c =
          \<lparr> src = changeImageUrlSize e s (w * dpi e) (h * dpi e),
            style = Some \<lparr> width = ''100%'', height = h, objectFit = ''contain'',
                           maxHeight = ''unset'', maxWidth = w \<rparr>,
            loading = ''lazy'', alt = a, className = c, onError = cb \<rparr>)
   \<and> (w = 0 \<and> h = 0 \<longrightarrow>
        imageAttrs e s w h cb a c =
          \<lparr> src = s, style = None, loading = ''auto'', alt = a, className = c, onError = cb \<rparr>)"
  by (simp add: dpi_def shouldResize_def Image_def imageAttrs_def)

text \<open>A width of 100 on a mobile device, and no size on a desktop.\<close>

theorem C8_image_renderer_witness:
  "dpi (demo_env True None None) = 2
   \<and> imageAttrs (demo_env True None None) (Str ''a.jpg'') 100 0 (SetError True) (Some ''Shirt'') ''image'' =
       \<lparr> src = demo_resize (Str ''a.jpg'') 200 0,
         style = Some \<lparr> width = ''100%'', height = 0, objectFit = ''contain'',
                        maxHeight = ''unset'', maxWidth = 100 \<rparr>,
         loading = ''lazy'', alt = Some ''Shirt'', className = ''image'', onError = SetError True \<rparr>
   \<and> imageAttrs (demo_env False None None) (Str ''a.jpg'') 0 0 (SetError True) (Some ''Shirt'') ''image'' =
       \<lparr> src = Str ''a.jpg'', style = None, loading = ''auto'', alt = Some ''Shirt'',
         className = ''image'', onError = SetError True \<rparr>"
proof -
  let ?m = "demo_env True None None"
  let ?d = "demo_env False None None"
  have d: "dpi ?m = 2"
    using C8_image_renderer [where e = ?m, THEN conjunct1] by (simp add: demo_defs)
  have "imageAttrs ?m (Str ''a.jpg'') 100 0 (SetError True) (Some ''Shirt'') ''image'' =
          \<lparr> src = changeImageUrlSize ?m (Str ''a.jpg'') (100 * dpi ?m) (0 * dpi ?m),
            style = Some \<lparr> width = ''100%'', height = 0, objectFit = ''contain'',
                           maxHeight = ''unset'', maxWidth = 100 \<rparr>,
            loading = ''lazy'', alt = Some ''Shirt'', className = ''image'', onError = SetError True \<rparr>"
    by (rule C8_image_renderer
               [THEN conjunct2, THEN conjunct2, THEN conjunct2, THEN conjunct1, rule_format])
       simp
  moreover have "changeImageUrlSize ?m = demo_resize"
    by (simp add: demo_env_def)
  ultimately have a: "imageAttrs ?m (Str ''a.jpg'') 100 0 (SetError True) (Some ''Shirt'') ''image'' =
       \<lparr> src = demo_resize (Str ''a.jpg'') 200 0,
         style = Some \<lparr> width = ''100%'', height = 0, objectFit = ''contain'',
                        maxHeight = ''unset'', maxWidth = 100 \<rparr>,
         loading = ''lazy'', alt = Some ''Shirt'', className = ''image'', onError = SetError True \<rparr>"
    using d by simp
  have b: "imageAttrs ?d (Str ''a.jpg'') 0 0 (SetError True) (Some ''Shirt'') ''image'' =
       \<lparr> src = Str ''a.jpg'', style = None, loading = ''auto'', alt = Some ''Shirt'',
         className = ''image'', onError = SetError True \<rparr>"
    by (rule C8_image_renderer
               [THEN conjunct2, THEN conjunct2, THEN conjunct2, THEN conjunct2, rule_format])
       simp
  from d a b show ?thesis by simp
qed

subsection \<open>One callback for the primary and the hover image\<close>

text \<open>
  Claim C9. Every image element of the rendered content carries the callback that the
  content resolver was given, so the primary and the hover image carry the same one. When
  the component shows two image elements, a load failure of either sets the error state,
  and from there on every view is the placeholder.
\<close>

theorem C9_one_callback_for_both_images:
  "(\<forall>a \<in> set (img_elements (ProductImageContent e pr cb err p)). onError a = cb)
   \<and> (length (img_elements (view i)) = 2 \<longrightarrow>
        onError (img_elements (view i) ! 0) = onError (img_elements (view i) ! 1)
        \<and> error (step i (LoadFailure 0))
        \<and> error (step i (LoadFailure 1))
        \<and> error (step i (LoadFailure 0)) = error (step i (LoadFailure 1))
        \<and> (k < 2 \<longrightarrow>
             error (run (step i (LoadFailure k)) evs)
             \<and> view (run (step i (LoadFailure k)) evs) =
                 Div (imageClassName (cur_env (run (step i (LoadFailure k)) evs))
                        (displayMode (cur_props (run (step i (LoadFailure k)) evs))))
                   [Div (containerClassname (cur_env (run (step i (LoadFailure k)) evs)))
                      [ImagePlaceholder
                         (useCssHandles (cur_env (run (step i (LoadFailure k)) evs))
                            CSS_HANDLES ''productImage'')]]))"
proof (intro conjI impI ballI)
  fix a
  assume "a \<in> set (img_elements (ProductImageContent e pr cb err p))"
  then show "onError a = cb" by (rule onError_content)
next
  assume n: "length (img_elements (view i)) = 2"
  then have "img_elements (view i) ! 0 \<in> set (img_elements (view i))"
    and "img_elements (view i) ! 1 \<in> set (img_elements (view i))"
    by simp_all
  then have "onError (img_elements (view i) ! 0) = SetError True"
    and "onError (img_elements (view i) ! 1) = SetError True"
    unfolding view_def by (auto dest: img_elements_ProductImage)
  then show "onError (img_elements (view i) ! 0) = onError (img_elements (view i) ! 1)"
    by simp
  from n show e0: "error (step i (LoadFailure 0))" by (intro step_failure) simp
  from n show e1: "error (step i (LoadFailure 1))" by (intro step_failure) simp
  from e0 e1 show "error (step i (LoadFailure 0)) = error (step i (LoadFailure 1))" by simp
  {
    assume "k < 2"
    with n have "error (step i (LoadFailure k))" by (intro step_failure) simp
    then show r: "error (run (step i (LoadFailure k)) evs)" by (rule run_error)
    from view_error [OF r]
    show "view (run (step i (LoadFailure k)) evs) =
                 Div (imageClassName (cur_env (run (step i (LoadFailure k)) evs))
                        (displayMode (cur_props (run (step i (LoadFailure k)) evs))))
                   [Div (containerClassname (cur_env (run (step i (LoadFailure k)) evs)))
                      [ImagePlaceholder
                         (useCssHandles (cur_env (run (step i (LoadFailure k)) evs))
                            CSS_HANDLES ''productImage'')]]"
      by (simp add: placeholder_def)
  }
qed

text \<open>
  A desktop with a hover image: both image elements carry \<open>SetError True\<close>, and the
  failure of the second one, the hover image, brings the placeholder.
\<close>

theorem C9_one_callback_witness:
  "length (img_elements (view (mount (demo_env False None (Some (demo_product (Some (demo_sku (Some demo_main))))))
               (demo_props None (Some ''back'') None None)))) = 2
   \<and> map onError (img_elements (ProductImageContent (demo_env False None None)
         (Some (demo_product (Some (demo_sku (Some demo_main))))) (SetError True) False
         (demo_props None (Some ''back'') None None))) = [SetError True, SetError True]
   \<and> error (step (mount (demo_env False None (Some (demo_product (Some (demo_sku (Some demo_main))))))
               (demo_props None (Some ''back'') None None)) (LoadFailure 1))
   \<and> view (run (step (mount (demo_env False None (Some (demo_product (Some (demo_sku (Some demo_main))))))
               (demo_props None (Some ''back'') None None)) (LoadFailure 1)) []) =
       Div ''imageContainer db w-100 center''
         [Div ''dib relative imageContainer imageStackContainer hoverEffect'' [ImagePlaceholder None]]"
proof -
  let ?pr = "Some (demo_product (Some (demo_sku (Some demo_main))))"
  let ?e = "demo_env False None ?pr"
  let ?p = "demo_props None (Some ''back'') None None :: responsive props"
  let ?q = "demo_props None (Some ''back'') None None :: real props"
  let ?i = "mount ?e ?p"
  let ?c = "ProductImageContent (demo_env False None None) ?pr (SetError True) False ?q"
  have n: "length (img_elements (view ?i)) = 2"
    by (simp add: view_def mount_def demo_defs render_defs Let_def)
  have m: "length (img_elements ?c) = 2"
    by (simp add: demo_defs render_defs Let_def)
  have "\<forall>a \<in> set (img_elements ?c). onError a = SetError True"
    by (rule C9_one_callback_for_both_images [THEN conjunct1])
  then have "\<forall>a \<in> set (map onError (img_elements ?c)). a = SetError True"
    by simp
  moreover from m obtain x y where "img_elements ?c = [x, y]"
    by (auto simp: length_Suc_conv numeral_2_eq_2)
  ultimately have a: "map onError (img_elements ?c) = [SetError True, SetError True]"
    by simp
  note T = C9_one_callback_for_both_images [where i = ?i and k = 1 and evs = "[]",
             THEN conjunct2, rule_format, OF n]
  from T have b: "error (step ?i (LoadFailure 1))" by (simp del: step.simps)
  from T have "view (run (step ?i (LoadFailure 1)) []) =
                 Div (imageClassName (cur_env (run (step ?i (LoadFailure 1)) []))
                        (displayMode (cur_props (run (step ?i (LoadFailure 1)) []))))
                   [Div (containerClassname (cur_env (run (step ?i (LoadFailure 1)) [])))
                      [ImagePlaceholder
                         (useCssHandles (cur_env (run (step ?i (LoadFailure 1)) []))
                            CSS_HANDLES ''productImage'')]]"
    by (simp del: step.simps)
  moreover have "cur_env (run (step ?i (LoadFailure 1)) []) = ?e"
    "cur_props (run (step ?i (LoadFailure 1)) []) = ?p"
    by (simp_all add: run_def mount_def del: step.simps)
  ultimately have c: "view (run (step ?i (LoadFailure 1)) []) =
       Div ''imageContainer db w-100 center''
         [Div ''dib relative imageContainer imageStackContainer hoverEffect'' [ImagePlaceholder None]]"
    by (simp add: demo_defs imageClassName_def containerClassname_def classNames_def
          class_when_def truthy_str_def CSS_HANDLES_def)
  from n a b c show ?thesis by simp
qed

subsection \<open>A sku without primary image URL\<close>

text \<open>
  The statement that a sku without \<^verbatim>\<open>image.imageUrl\<close> always gets an image element
  whose source is the empty object fails when \<^verbatim>\<open>mainImageLabel\<close> selects an image of the
  list: here the sku has no primary image, the label \<open>front\<close> matches, and the only
  image element shows \<open>front.jpg\<close>.
\<close>

theorem C10_override_counterexample:
  "Option.bind (Some (demo_product (Some (demo_sku None)))) sku = Some (demo_sku None)
   \<and> Option.bind (image (demo_sku None)) imageUrl = None
   \<and> map src (img_elements (ProductImageContent (demo_env False None None)
         (Some (demo_product (Some (demo_sku None)))) (SetError True) False
         (demo_props (Some ''front'') None None None))) = [Str ''front.jpg'']
   \<and> EmptyObject \<notin> set (map src (img_elements (ProductImageContent (demo_env False None None)
         (Some (demo_product (Some (demo_sku None)))) (SetError True) False
         (demo_props (Some ''front'') None None None))))"
  by (simp add: demo_defs render_defs Let_def)

text \<open>
  Claim C10, amended. With a sku, no error and no \<^verbatim>\<open>sku.image.imageUrl\<close>, the content
  is not the placeholder and the default of the primary URL is the empty object. Unless
  the main image label overrides it (no variation selected and an image found by a
  non-empty label), the image renderer is given the empty object as its source, and when
  resize is inactive the source of the first image element is the empty object itself.
\<close>

theorem C10_missing_primary_url_renders_image:
  "Option.bind pr sku = Some s \<and> Option.bind (image s) imageUrl = None \<longrightarrow>
     ProductImageContent e pr cb False p \<noteq> placeholder e
     \<and> defaultImageUrl s = EmptyObject
     \<and> (selectedImageVariationSKU e \<noteq> None
          \<or> findImageByLabel (pathOr [] (images s)) (mainImageLabel p) = None \<longrightarrow>
          (\<exists>rest. img_elements (ProductImageContent e pr cb False p) =
             imageAttrs e EmptyObject
               (fst (resolvedSize (widthProp p) (heightProp p)))
               (snd (resolvedSize (widthProp p) (heightProp p)))
               cb (Option.bind pr productName) (imageClassname e (displayMode p)) # rest)
          \<and> (\<not> shouldResize (fst (resolvedSize (widthProp p) (heightProp p)))
                  (snd (resolvedSize (widthProp p) (heightProp p))) \<longrightarrow>
               (\<exists>a rest. img_elements (ProductImageContent e pr cb False p) = a # rest
                  \<and> src a = EmptyObject)))"
proof (intro impI)
  assume h: "Option.bind pr sku = Some s \<and> Option.bind (image s) imageUrl = None"
  then have s: "Option.bind pr sku = Some s" and u: "Option.bind (image s) imageUrl = None"
    by simp_all
  let ?w = "fst (resolvedSize (widthProp p) (heightProp p))"
  let ?h = "snd (resolvedSize (widthProp p) (heightProp p))"
  from content_first_image [OF s, of e cb p]
  obtain rest where r: "img_elements (ProductImageContent e pr cb False p) =
     imageAttrs e (primaryImageUrl e (mainImageLabel p) s) ?w ?h
       cb (Option.bind pr productName) (imageClassname e (displayMode p)) # rest"
    by blast
  then have "img_elements (ProductImageContent e pr cb False p) \<noteq> img_elements (placeholder e :: 'a element)"
    by simp
  then have a: "ProductImageContent e pr cb False p \<noteq> placeholder e"
    by auto
  from u have b: "defaultImageUrl s = EmptyObject"
    by (simp add: defaultImageUrl_def pathOr_def)
  have c: "(\<exists>rest. img_elements (ProductImageContent e pr cb False p) =
             imageAttrs e EmptyObject ?w ?h
               cb (Option.bind pr productName) (imageClassname e (displayMode p)) # rest)
          \<and> (\<not> shouldResize ?w ?h \<longrightarrow>
               (\<exists>a rest. img_elements (ProductImageContent e pr cb False p) = a # rest
                  \<and> src a = EmptyObject))"
    if n: "selectedImageVariationSKU e \<noteq> None
          \<or> findImageByLabel (pathOr [] (images s)) (mainImageLabel p) = None"
  proof -
    from n b have "primaryImageUrl e (mainImageLabel p) s = EmptyObject"
      by (auto simp: primaryImageUrl_def Let_def)
    with r have r': "img_elements (ProductImageContent e pr cb False p) =
       imageAttrs e EmptyObject ?w ?h
         cb (Option.bind pr productName) (imageClassname e (displayMode p)) # rest"
      by simp
    moreover have "src (imageAttrs e EmptyObject ?w ?h
         cb (Option.bind pr productName) (imageClassname e (displayMode p))) = EmptyObject"
      if "\<not> shouldResize ?w ?h"
      using that by (simp add: imageAttrs_def)
    ultimately show ?thesis by blast
  qed
  from a b c show "ProductImageContent e pr cb False p \<noteq> placeholder e
     \<and> defaultImageUrl s = EmptyObject
     \<and> (selectedImageVariationSKU e \<noteq> None
          \<or> findImageByLabel (pathOr [] (images s)) (mainImageLabel p) = None \<longrightarrow>
          (\<exists>rest. img_elements (ProductImageContent e pr cb False p) =
             imageAttrs e EmptyObject ?w ?h
               cb (Option.bind pr productName) (imageClassname e (displayMode p)) # rest)
          \<and> (\<not> shouldResize ?w ?h \<longrightarrow>
               (\<exists>a rest. img_elements (ProductImageContent e pr cb False p) = a # rest
                  \<and> src a = EmptyObject)))"
    by blast
qed

text \<open>No primary image, no main label and no size: one image element, its source the empty object.\<close>

theorem C10_missing_primary_url_witness:
  "Option.bind (Some (demo_product (Some (demo_sku None)))) sku = Some (demo_sku None)
   \<and> Option.bind (image (demo_sku None)) imageUrl = None
   \<and> findImageByLabel (pathOr [] (images (demo_sku None))) None = None
   \<and> ProductImageContent (demo_env False None None) (Some (demo_product (Some (demo_sku None))))
        (SetError True) False (demo_props None None None None)
      \<noteq> placeholder (demo_env False None None)
   \<and> map src (img_elements (ProductImageContent (demo_env False None None)
        (Some (demo_product (Some (demo_sku None)))) (SetError True) False
        (demo_props None None None None))) = [EmptyObject]"
proof -
  let ?s = "demo_sku None"
  let ?pr = "Some (demo_product (Some ?s))"
  let ?e = "demo_env False None None"
  let ?p = "demo_props None None None None :: real props"
  let ?c = "ProductImageContent ?e ?pr (SetError True) False ?p"
  have h: "Option.bind ?pr sku = Some ?s \<and> Option.bind (image ?s) imageUrl = None"
    by (simp add: demo_defs)
  have f: "findImageByLabel (pathOr [] (images ?s)) None = None"
    by (simp add: findImageByLabel_def truthy_str_def)
  have l: "mainImageLabel ?p = None" "widthProp ?p = None" "heightProp ?p = None"
    by (simp_all add: demo_defs)
  note T = C10_missing_primary_url_renders_image
             [where pr = ?pr and s = ?s and e = ?e and cb = "SetError True" and p = ?p,
              rule_format, OF h]
  from T have a: "?c \<noteq> placeholder ?e" by simp
  have n: "\<not> shouldResize (fst (resolvedSize (widthProp ?p) (heightProp ?p)))
                  (snd (resolvedSize (widthProp ?p) (heightProp ?p)))"
    by (simp add: l resolvedSize_def or_size_def or_zero_def parseFloat_def shouldResize_def)
  from T f l n obtain x rest where x: "img_elements ?c = x # rest" "src x = EmptyObject"
    by auto
  have "length (img_elements ?c) = 1"
    by (simp add: demo_defs render_defs Let_def)
  with x have b: "map src (img_elements ?c) = [EmptyObject]"
    by simp
  from h f a b show ?thesis by simp
qed

end
